theory Spec2Isabelle
  imports Complex_Main
begin

section \<open>Data model\<close>

text \<open>
  The game keeps its blocks in a JavaScript \<^verbatim>\<open>Map<string, Block>\<close> and its cube meshes in
  a three.js group.  Two variants of the component exist in the repository:
  \<^verbatim>\<open>src/components/MinecraftGame.tsx\<close> and an older copy (\<^verbatim>\<open>unnamed/part_000\<close>); the
  definitions of the older copy carry the suffix \<open>_part000\<close>.

  JavaScript numbers are IEEE doubles.  They are modelled by the real numbers they denote
  (no NaN, no infinities), and the additions of the click handlers round their result to
  the nearest double, as the program's do.  \<^verbatim>\<open>Math.sin\<close>, \<^verbatim>\<open>Math.cos\<close> and \<^verbatim>\<open>Math.PI\<close> are
  the real \<open>sin\<close>, \<open>cos\<close> and \<open>pi\<close>; terrain coordinates are small integers, which are exact.
\<close>

datatype BlockType = AIR | GRASS | DIRT | STONE | WOOD

text \<open>\<^verbatim>\<open>THREE.Vector3\<close>; the selectors are the fields \<^verbatim>\<open>x\<close>, \<^verbatim>\<open>y\<close>, \<^verbatim>\<open>z\<close>.\<close>

datatype Vector3 = Vector3 (vec_x: real) (vec_y: real) (vec_z: real)

text \<open>
  Rounding to the nearest double, ties to even: a double is a multiple of
  \<open>2 ^ (e - 52)\<close>, where \<open>e\<close> is the binary exponent of the number (at least \<open>-1022\<close>, below
  which doubles are equally spaced).  A result of magnitude \<open>2 ^ 1024\<close> or more is
  \<^verbatim>\<open>Infinity\<close> in the program and lies outside this model.
\<close>

definition round_half_even :: "real \<Rightarrow> int" where
  "round_half_even r =
     (let f = \<lfloor>r\<rfloor>; d = r - of_int f
      in if d < 1/2 then f else if 1/2 < d then f + 1 else if even f then f else f + 1)"

definition fl :: "real \<Rightarrow> real" where
  "fl x =
     (if x = 0 then 0
      else
        (let e = max \<lfloor>log 2 \<bar>x\<bar>\<rfloor> (- 1022);
             u = 2 powr (of_int e - 52)
         in u * of_int (round_half_even (x / u))))"

text \<open>
  The methods of \<^verbatim>\<open>THREE.Vector3\<close> that the click handlers call.  \<^verbatim>\<open>add\<close> and
  \<^verbatim>\<open>addScalar\<close> are double additions; \<^verbatim>\<open>Math.floor\<close> of a double is exact.
\<close>

definition add :: "Vector3 \<Rightarrow> Vector3 \<Rightarrow> Vector3" where
  "add v w =
     Vector3 (fl (vec_x v + vec_x w)) (fl (vec_y v + vec_y w)) (fl (vec_z v + vec_z w))"

definition floor_vec :: "Vector3 \<Rightarrow> Vector3" where
  "floor_vec v =
     Vector3 (of_int \<lfloor>vec_x v\<rfloor>) (of_int \<lfloor>vec_y v\<rfloor>) (of_int \<lfloor>vec_z v\<rfloor>)"

definition addScalar :: "Vector3 \<Rightarrow> real \<Rightarrow> Vector3" where
  "addScalar v c = Vector3 (fl (vec_x v + c)) (fl (vec_y v + c)) (fl (vec_z v + c))"

record Block =
  type :: BlockType
  position :: Vector3

text \<open>
  The map key is the template string \<^verbatim>\<open>`${x},${y},${z}`\<close>.  The decimal rendering of a
  JavaScript number determines the number, and it never contains a comma, so two keys are
  the same string exactly when the three coordinates agree.  A key is therefore modelled
  by the triple of coordinates that the string spells out.
\<close>

type_synonym Key = "real \<times> real \<times> real"

definition key :: "Vector3 \<Rightarrow> Key" where
  "key p = (vec_x p, vec_y p, vec_z p)"

text \<open>
  The methods of the JavaScript \<^verbatim>\<open>Map\<close> that the program calls on the world.  \<^verbatim>\<open>set\<close>
  stores under the key whether or not the key is present; it has no failure case.
\<close>

definition Map_get :: "'k \<Rightarrow> ('k \<rightharpoonup> 'v) \<Rightarrow> 'v option" where
  "Map_get k m = m k"

definition Map_has :: "'k \<Rightarrow> ('k \<rightharpoonup> 'v) \<Rightarrow> bool" where
  "Map_has k m = (m k \<noteq> None)"

definition Map_set :: "'k \<Rightarrow> 'v \<Rightarrow> ('k \<rightharpoonup> 'v) \<Rightarrow> ('k \<rightharpoonup> 'v)" where
  "Map_set k v m = m(k \<mapsto> v)"

definition Map_delete :: "'k \<Rightarrow> ('k \<rightharpoonup> 'v) \<Rightarrow> ('k \<rightharpoonup> 'v)" where
  "Map_delete k m = m(k := None)"

text \<open>A mesh of the block group of \<^verbatim>\<open>MinecraftGame.tsx\<close>: its material and its position.\<close>

record Mesh =
  material :: BlockType
  mesh_position :: Vector3

text \<open>
  A mesh of the older copy, which also remembers the block it draws in
  \<^verbatim>\<open>userData.block\<close>.
\<close>

record Mesh_part000 =
  material_part000 :: BlockType
  mesh_position_part000 :: Vector3
  userData_block :: Block

record Camera =
  rotation_y :: real
  rotation_x :: real

text \<open>
  The refs and the React state of the component.  A ref that is still \<^verbatim>\<open>undefined\<close> is
  \<open>None\<close> (or \<open>False\<close> where only its presence matters).  The type parameter is the mesh
  type of the variant.
\<close>

record 'm Game =
  world :: "Key \<rightharpoonup> Block"
  blocksGroup :: "'m list option"
  camera :: "Camera option"
  raycaster :: bool
  scene :: bool
  mouse_x :: real
  mouse_y :: real
  keys :: "string \<Rightarrow> bool"
  currentBlockType :: BlockType
  isPointerLocked :: bool

record MouseEvent =
  button :: nat
  movementX :: real
  movementY :: real

section \<open>Terrain generation (MinecraftGame.tsx)\<close>

definition createBlockMesh :: "BlockType \<Rightarrow> Mesh" where
  "createBlockMesh blockType = \<lparr>material = blockType, mesh_position = Vector3 0 0 0\<rparr>"

definition group_add :: "'m \<Rightarrow> 'm list option \<Rightarrow> 'm list option" where
  "group_add mesh g = map_option (\<lambda>children. children @ [mesh]) g"

definition height :: "int \<Rightarrow> int \<Rightarrow> int" where
  "height x z = \<lfloor>sin (real_of_int x * 0.1) * cos (real_of_int z * 0.1) * 3\<rfloor> + 2"

definition blockTypeAt :: "int \<Rightarrow> int \<Rightarrow> BlockType" where
  "blockTypeAt y h =
     (if y = h \<and> h > 1 then GRASS
      else if y \<ge> h - 2 \<and> h > 1 then DIRT
      else STONE)"

text \<open>The body of the innermost loop.\<close>

definition terrainBlock :: "int \<Rightarrow> int \<Rightarrow> int \<Rightarrow> Mesh Game \<Rightarrow> Mesh Game" where
  "terrainBlock x z y s =
     (let blockType = blockTypeAt y (height x z);
          position = Vector3 (of_int x) (of_int y) (of_int z);
          block = \<lparr>type = blockType, position = position\<rparr>;
          k = (of_int x, of_int y, of_int z);
          mesh = (createBlockMesh blockType)\<lparr>mesh_position := position\<rparr>
      in s\<lparr>world := Map_set k block (world s), blocksGroup := group_add mesh (blocksGroup s)\<rparr>)"

definition generateTerrain :: "Mesh Game \<Rightarrow> Mesh Game" where
  "generateTerrain s =
     (if blocksGroup s = None then s
      else fold (\<lambda>x. fold (\<lambda>z. fold (terrainBlock x z) [0..height x z]) [-20..20]) [-20..20]
             (s\<lparr>world := Map.empty, blocksGroup := Some []\<rparr>))"

section \<open>Editing and input handlers (MinecraftGame.tsx)\<close>

text \<open>
  One entry of the list that \<^verbatim>\<open>raycaster.intersectObjects\<close> returns, nearest hit first: the
  hit point, the normal of the hit face (absent when three.js reports no face) and the mesh
  that was hit.  The list is computed by three.js and is an input of the handlers.
\<close>

record 'm Intersection =
  point :: Vector3
  face_normal :: "Vector3 option"
  object :: 'm

definition removeBlockMesh :: "Vector3 \<Rightarrow> Mesh Game \<Rightarrow> Mesh Game" where
  "removeBlockMesh pos s =
     (let k = key pos in
      case Map_get k (world s) of
        None \<Rightarrow> s
      | Some block \<Rightarrow>
          (case blocksGroup s of
             None \<Rightarrow> s
           | Some children \<Rightarrow>
               (let children' =
                      (case find (\<lambda>child. mesh_position child = pos) children of
                         None \<Rightarrow> children
                       | Some meshToRemove \<Rightarrow> remove1 meshToRemove children)
                in s\<lparr>blocksGroup := Some children', world := Map_delete k (world s)\<rparr>)))"

definition handleMouseMove :: "MouseEvent \<Rightarrow> 'm Game \<Rightarrow> 'm Game" where
  "handleMouseMove event s =
     (case camera s of
        None \<Rightarrow> s
      | Some cam \<Rightarrow>
          if \<not> isPointerLocked s then s
          else
            (let mx = mouse_x s - movementX event * 0.002;
                 my = mouse_y s - movementY event * 0.002;
                 my' = max (- pi / 2) (min (pi / 2) my)
             in s\<lparr>mouse_x := mx, mouse_y := my',
                  camera := Some (cam\<lparr>rotation_y := mx, rotation_x := my'\<rparr>)\<rparr>))"

definition handleClick :: "MouseEvent \<Rightarrow> Mesh Intersection list \<Rightarrow> Mesh Game \<Rightarrow> Mesh Game" where
  "handleClick event intersects s =
     (if \<not> isPointerLocked s \<or> \<not> raycaster s \<or> camera s = None \<or> blocksGroup s = None
      then s
      else
        (case intersects of
           [] \<Rightarrow> s
         | intersect # _ \<Rightarrow>
             (case face_normal intersect of
                None \<Rightarrow> s
              | Some normal \<Rightarrow>
                  if button event = 0 then
                    removeBlockMesh (mesh_position (object intersect)) s
                  else if button event = 2 then
                    (let newPosition =
                           addScalar (floor_vec (add (point intersect) normal)) 0.5;
                         k = key newPosition
                     in if \<not> Map_has k (world s) then
                          (let block = \<lparr>type = currentBlockType s, position = newPosition\<rparr>;
                               mesh = (createBlockMesh (currentBlockType s))
                                        \<lparr>mesh_position := newPosition\<rparr>
                           in s\<lparr>world := Map_set k block (world s),
                                blocksGroup := group_add mesh (blocksGroup s)\<rparr>)
                        else s)
                  else s)))"

definition handleKeyDown :: "string \<Rightarrow> Mesh Game \<Rightarrow> Mesh Game" where
  "handleKeyDown code s =
     (let s0 = s\<lparr>keys := (keys s)(code := True)\<rparr>;
          s1 = (if keys s0 ''Digit1'' then s0\<lparr>currentBlockType := GRASS\<rparr> else s0);
          s2 = (if keys s1 ''Digit2'' then s1\<lparr>currentBlockType := DIRT\<rparr> else s1);
          s3 = (if keys s2 ''Digit3'' then s2\<lparr>currentBlockType := STONE\<rparr> else s2)
      in if keys s3 ''Digit4'' then s3\<lparr>currentBlockType := WOOD\<rparr> else s3)"

definition handleKeyUp :: "string \<Rightarrow> 'm Game \<Rightarrow> 'm Game" where
  "handleKeyUp code s = s\<lparr>keys := (keys s)(code := False)\<rparr>"

text \<open>
  \<^verbatim>\<open>requestPointerLock\<close> and \<^verbatim>\<open>handlePointerLockChange\<close> both end in
  \<^verbatim>\<open>setIsPointerLocked\<close>, the second with a value decided by the browser.
\<close>

definition setIsPointerLocked :: "bool \<Rightarrow> 'm Game \<Rightarrow> 'm Game" where
  "setIsPointerLocked b s = s\<lparr>isPointerLocked := b\<rparr>"

text \<open>The state before the component is mounted, and \<^verbatim>\<open>initScene\<close> (mount point present).\<close>

definition initialGame :: "'m Game" where
  "initialGame =
     \<lparr>world = Map.empty, blocksGroup = None, camera = None, raycaster = False, scene = False,
      mouse_x = 0, mouse_y = 0, keys = (\<lambda>_. False), currentBlockType = GRASS,
      isPointerLocked = False\<rparr>"

definition initScene :: "Mesh Game \<Rightarrow> Mesh Game" where
  "initScene s =
     generateTerrain
       (s\<lparr>scene := True, camera := Some \<lparr>rotation_y = 0, rotation_x = 0\<rparr>, raycaster := True,
          blocksGroup := Some []\<rparr>)"

text \<open>The states the component can be in: any interleaving of the handlers after start-up.\<close>

inductive reachable :: "Mesh Game \<Rightarrow> bool" where
  start: "reachable initialGame"
| init: "reachable s \<Longrightarrow> reachable (initScene s)"
| terrain: "reachable s \<Longrightarrow> reachable (generateTerrain s)"
| click: "reachable s \<Longrightarrow> reachable (handleClick event intersects s)"
| move: "reachable s \<Longrightarrow> reachable (handleMouseMove event s)"
| keyDown: "reachable s \<Longrightarrow> reachable (handleKeyDown code s)"
| keyUp: "reachable s \<Longrightarrow> reachable (handleKeyUp code s)"
| lock: "reachable s \<Longrightarrow> reachable (setIsPointerLocked b s)"

section \<open>The older copy (unnamed/part_000)\<close>

definition createBlockMesh_part000 :: "Block \<Rightarrow> Mesh_part000 Game \<Rightarrow> Mesh_part000 Game" where
  "createBlockMesh_part000 block s =
     (case blocksGroup s of
        None \<Rightarrow> s
      | Some children \<Rightarrow>
          s\<lparr>blocksGroup :=
               Some (children @
                 [\<lparr>material_part000 = type block, mesh_position_part000 = position block,
                   userData_block = block\<rparr>])\<rparr>)"

definition height_part000 :: "int \<Rightarrow> int \<Rightarrow> int" where
  "height_part000 x z = \<lfloor>sin (real_of_int x * 0.1) * cos (real_of_int z * 0.1) * 3\<rfloor> + 5"

definition blockTypeAt_part000 :: "int \<Rightarrow> int \<Rightarrow> BlockType" where
  "blockTypeAt_part000 y h =
     (if y = h then GRASS
      else if y \<ge> h - 2 then DIRT
      else STONE)"

definition terrainBlock_part000 ::
  "int \<Rightarrow> int \<Rightarrow> int \<Rightarrow> Mesh_part000 Game \<Rightarrow> Mesh_part000 Game" where
  "terrainBlock_part000 x z y s =
     (let blockType = blockTypeAt_part000 y (height_part000 x z);
          position = Vector3 (of_int x) (of_int y) (of_int z);
          block = \<lparr>type = blockType, position = position\<rparr>;
          k = (of_int x, of_int y, of_int z)
      in createBlockMesh_part000 block (s\<lparr>world := Map_set k block (world s)\<rparr>))"

definition generateTerrain_part000 :: "Mesh_part000 Game \<Rightarrow> Mesh_part000 Game" where
  "generateTerrain_part000 s =
     (if blocksGroup s = None then s
      else fold (\<lambda>x. fold (\<lambda>z. fold (terrainBlock_part000 x z) [0..height_part000 x z])
                          [-20..20]) [-20..20]
             (s\<lparr>world := Map.empty, blocksGroup := Some []\<rparr>))"

definition removeBlockMesh_part000 :: "Vector3 \<Rightarrow> Mesh_part000 Game \<Rightarrow> Mesh_part000 Game" where
  "removeBlockMesh_part000 pos s =
     (case blocksGroup s of
        None \<Rightarrow> s
      | Some children \<Rightarrow>
          (case find (\<lambda>child. mesh_position_part000 child = pos) children of
             None \<Rightarrow> s
           | Some mesh \<Rightarrow> s\<lparr>blocksGroup := Some (remove1 mesh children)\<rparr>))"

definition handleClick_part000 ::
  "MouseEvent \<Rightarrow> Mesh_part000 Intersection list \<Rightarrow> Mesh_part000 Game \<Rightarrow> Mesh_part000 Game" where
  "handleClick_part000 event intersects s =
     (if \<not> isPointerLocked s \<or> \<not> raycaster s \<or> camera s = None \<or> \<not> scene s then s
      else
        (case intersects of
           [] \<Rightarrow> s
         | intersect # _ \<Rightarrow>
             (let clickedBlock = userData_block (object intersect) in
              if button event = 0 then
                (let k = key (position clickedBlock)
                 in removeBlockMesh_part000 (position clickedBlock)
                      (s\<lparr>world := Map_delete k (world s)\<rparr>))
              else if button event = 2 then
                (case face_normal intersect of
                   None \<Rightarrow> s
                 | Some normal \<Rightarrow>
                     (let newPosition = add (position clickedBlock) normal;
                          k = key newPosition
                      in if \<not> Map_has k (world s) then
                           (let newBlock =
                                  \<lparr>type = currentBlockType s, position = newPosition\<rparr>
                            in createBlockMesh_part000 newBlock
                                 (s\<lparr>world := Map_set k newBlock (world s)\<rparr>))
                         else s))
              else s)))"

definition initScene_part000 :: "Mesh_part000 Game \<Rightarrow> Mesh_part000 Game" where
  "initScene_part000 s =
     generateTerrain_part000
       (s\<lparr>scene := True, camera := Some \<lparr>rotation_y = 0, rotation_x = 0\<rparr>, raycaster := True,
          blocksGroup := Some []\<rparr>)"

text \<open>
  The key handler of the older copy looks the key code up in an object literal, where
  inherited members answer too; it is left out, and the states of the older copy are
  taken with an armed block type that is a \<open>BlockType\<close>.
\<close>

section \<open>The generated terrain in closed form\<close>

text \<open>
  The block that terrain generation stores under a key: its type is decided by the
  height of the column and the level, its position is the key's coordinates.
\<close>

definition terrainBlockOf :: "Key \<Rightarrow> Block" where
  "terrainBlockOf k =
     (case k of (a, b, c) \<Rightarrow>
        \<lparr>type = blockTypeAt \<lfloor>b\<rfloor> (height \<lfloor>a\<rfloor> \<lfloor>c\<rfloor>), position = Vector3 a b c\<rparr>)"

definition terrainBlockOf_part000 :: "Key \<Rightarrow> Block" where
  "terrainBlockOf_part000 k =
     (case k of (a, b, c) \<Rightarrow>
        \<lparr>type = blockTypeAt_part000 \<lfloor>b\<rfloor> (height_part000 \<lfloor>a\<rfloor> \<lfloor>c\<rfloor>),
         position = Vector3 a b c\<rparr>)"

section \<open>The occupancy invariant\<close>

text \<open>
  What every state of the component satisfies: the armed block type is never Air, no stored
  block is Air, and every block is stored under the key of its own position.
\<close>

definition occupancy :: "'m Game \<Rightarrow> bool" where
  "occupancy s \<longleftrightarrow>
     currentBlockType s \<noteq> AIR \<and>
     (\<forall>k b. world s k = Some b \<longrightarrow> type b \<noteq> AIR \<and> key (position b) = k)"

section \<open>Example states\<close>

text \<open>The component after mounting, with the pointer locked.\<close>

definition mountedGame :: "Mesh Game" where
  "mountedGame = setIsPointerLocked True (initScene initialGame)"

definition mountedGame_part000 :: "Mesh_part000 Game" where
  "mountedGame_part000 = setIsPointerLocked True (initScene_part000 initialGame)"

text \<open>
  A world with a single Stone block at the origin, looked at from above: the ray from
  \<open>(0, 5, 0)\<close> straight down meets the top face of the unit cube at \<open>(0, 1/2, 0)\<close>, where the
  face normal is \<open>(0, 1, 0)\<close>.
\<close>

definition rightClick :: MouseEvent where
  "rightClick = \<lparr>button = 2, movementX = 0, movementY = 0\<rparr>"

definition leftClick :: MouseEvent where
  "leftClick = \<lparr>button = 0, movementX = 0, movementY = 0\<rparr>"

definition singleBlockGame :: "Mesh Game" where
  "singleBlockGame =
     \<lparr>world = [(0, 0, 0) \<mapsto> \<lparr>type = STONE, position = Vector3 0 0 0\<rparr>],
      blocksGroup = Some [\<lparr>material = STONE, mesh_position = Vector3 0 0 0\<rparr>],
      camera = Some \<lparr>rotation_y = 0, rotation_x = 0\<rparr>, raycaster = True, scene = True,
      mouse_x = 0, mouse_y = 0, keys = (\<lambda>_. False), currentBlockType = GRASS,
      isPointerLocked = True\<rparr>"

definition topFaceHit :: "Mesh Intersection" where
  "topFaceHit =
     \<lparr>point = Vector3 0 (1/2) 0, face_normal = Some (Vector3 0 1 0),
      object = \<lparr>material = STONE, mesh_position = Vector3 0 0 0\<rparr>\<rparr>"

definition singleBlockGame_part000 :: "Mesh_part000 Game" where
  "singleBlockGame_part000 =
     \<lparr>world = [(0, 0, 0) \<mapsto> \<lparr>type = STONE, position = Vector3 0 0 0\<rparr>],
      blocksGroup =
        Some [\<lparr>material_part000 = STONE, mesh_position_part000 = Vector3 0 0 0,
               userData_block = \<lparr>type = STONE, position = Vector3 0 0 0\<rparr>\<rparr>],
      camera = Some \<lparr>rotation_y = 0, rotation_x = 0\<rparr>, raycaster = True, scene = True,
      mouse_x = 0, mouse_y = 0, keys = (\<lambda>_. False), currentBlockType = GRASS,
      isPointerLocked = True\<rparr>"

definition topFaceHit_part000 :: "Mesh_part000 Intersection" where
  "topFaceHit_part000 =
     \<lparr>point = Vector3 0 (1/2) 0, face_normal = Some (Vector3 0 1 0),
      object = \<lparr>material_part000 = STONE, mesh_position_part000 = Vector3 0 0 0,
                userData_block = \<lparr>type = STONE, position = Vector3 0 0 0\<rparr>\<rparr>\<rparr>"

text \<open>The same world after one Place click, and a hit on the block that the click created.\<close>

definition placedGame :: "Mesh Game" where
  "placedGame = handleClick rightClick [topFaceHit] singleBlockGame"

definition placedGame_part000 :: "Mesh_part000 Game" where
  "placedGame_part000 = handleClick_part000 rightClick [topFaceHit_part000] singleBlockGame_part000"

definition placedHit :: "Mesh Intersection" where
  "placedHit =
     \<lparr>point = Vector3 (1/2) 2 (1/2), face_normal = Some (Vector3 0 1 0),
      object = \<lparr>material = GRASS, mesh_position = Vector3 (1/2) (3/2) (1/2)\<rparr>\<rparr>"

definition placedHit_part000 :: "Mesh_part000 Intersection" where
  "placedHit_part000 =
     \<lparr>point = Vector3 0 (3/2) 0, face_normal = Some (Vector3 0 1 0),
      object = \<lparr>material_part000 = GRASS, mesh_position_part000 = Vector3 0 1 0,
                userData_block = \<lparr>type = GRASS, position = Vector3 0 1 0\<rparr>\<rparr>\<rparr>"


text \<open>A camera that can look around, and three pointer movements.\<close>

definition lookingGame :: "Mesh Game" where
  "lookingGame =
     initialGame\<lparr>camera := Some \<lparr>rotation_y = 0, rotation_x = 0\<rparr>, isPointerLocked := True\<rparr>"

definition pointerDown :: MouseEvent where
  "pointerDown = \<lparr>button = 0, movementX = 0, movementY = 1000\<rparr>"

definition pointerUp :: MouseEvent where
  "pointerUp = \<lparr>button = 0, movementX = 0, movementY = - 1000\<rparr>"

definition pointerSmall :: MouseEvent where
  "pointerSmall = \<lparr>button = 0, movementX = 0, movementY = 100\<rparr>"

section \<open>Double rounding: proofs\<close>

text \<open>A number that is a multiple of the spacing at its own exponent is not changed.\<close>

lemma round_half_even_of_int [simp]: "round_half_even (of_int m) = m"
  by (simp add: round_half_even_def)

lemma fl_0 [simp]: "fl 0 = 0"
  by (simp add: fl_def)

lemma fl_exact:
  assumes "2 powr of_int e \<le> \<bar>x\<bar>" and "\<bar>x\<bar> < 2 powr (of_int e + 1)" and "- 1022 \<le> e"
    and "x = of_int m * 2 powr (of_int e - 52)"
  shows "fl x = x"
proof -
  have pos: "0 < \<bar>x\<bar>" using assms(1) by (smt (verit) powr_gt_zero)
  then have x0: "x \<noteq> 0" by auto
  have "\<lfloor>log 2 \<bar>x\<bar>\<rfloor> = e"
    using assms(1,2) pos by (simp add: floor_log_eq_powr_iff)
  then have e: "max \<lfloor>log 2 \<bar>x\<bar>\<rfloor> (- 1022) = e" using assms(3) by simp
  have u: "x / 2 powr (of_int e - 52) = of_int m"
    using assms(4) by simp
  show ?thesis
    using x0 by (simp add: fl_def e u Let_def assms(4)[symmetric] mult.commute)
qed

lemma fl_half: "fl (1/2) = 1/2"
  by (rule fl_exact [where e = "- 1" and m = "2 ^ 52"])
     (simp_all add: powr_minus powr_numeral divide_simps)

lemma fl_one: "fl 1 = 1"
  by (rule fl_exact [where e = 0 and m = "2 ^ 52"])
     (simp_all add: powr_minus powr_numeral divide_simps)

lemma fl_three_halves: "fl (3/2) = 3/2"
  by (rule fl_exact [where e = 0 and m = "3 * 2 ^ 51"])
     (simp_all add: powr_minus powr_numeral divide_simps)




lemma fl_tie_3: "fl (3 - 1 / 2 ^ 52) = 3"
proof -
  have p: "(0::real) < 3 - 1 / 2 ^ 52" by simp
  have "\<lfloor>log 2 \<bar>3 - 1 / 2 ^ 52 :: real\<bar>\<rfloor> = 1"
    using p by (simp add: floor_log_eq_powr_iff powr_numeral powr_add)
  then show ?thesis
    using p by (simp add: fl_def Let_def round_half_even_def powr_minus powr_numeral)
qed

section \<open>Terrain generation: proofs\<close>

subsection \<open>Bounds on the height formula\<close>

lemma sin_8_5_lower: "2 / 3 < sin (8 / 5 :: real)"
proof -
  have "\<bar>sin (8/5::real) - (\<Sum>m<5. sin_coeff m * (8/5) ^ m)\<bar> \<le> inverse (fact 5) * \<bar>8/5\<bar> ^ 5"
    by (rule Maclaurin_sin_bound)
  moreover have "(\<Sum>m<5. g m) = g 0 + g 1 + g 2 + g 3 + g 4" for g :: "nat \<Rightarrow> real"
    by (simp add: eval_nat_numeral)
  moreover have "sin_coeff 1 = 1" "sin_coeff 2 = 0" "sin_coeff 3 = - 1 / 6" "sin_coeff 4 = 0"
    by (simp_all add: sin_coeff_def fact_numeral)
  ultimately have "\<bar>sin (8/5::real) - (8/5 - (8/5)^3 / 6)\<bar> \<le> inverse (fact 5) * \<bar>8/5\<bar> ^ 5"
    by simp
  then have "sin (8/5::real) \<ge> (8/5 - (8/5)^3 / 6) - inverse (fact 5) * \<bar>8/5\<bar> ^ 5"
    by linarith
  moreover have "(8/5 - (8/5)^3 / 6) - inverse (fact 5) * \<bar>8/5 :: real\<bar> ^ 5 > 2/3"
    by (simp add: fact_numeral power_divide eval_nat_numeral)
  ultimately show ?thesis by linarith
qed

lemma floor_sin_cos_ge: "- 3 \<le> \<lfloor>sin (a::real) * cos b * 3\<rfloor>"
proof -
  have "\<bar>sin a * cos b\<bar> \<le> 1 * 1"
    unfolding abs_mult by (rule mult_mono) simp_all
  then have "real_of_int (- 3) \<le> sin a * cos b * 3" by linarith
  then show ?thesis by (simp only: le_floor_iff)
qed

lemma height_0_0: "height 0 0 = 2"
  by (simp add: height_def)

lemma height_m1_0: "height (- 1) 0 = 1"
proof -
  have "0 < sin (1/10 :: real)" by (rule sin_gt_zero_02) simp_all
  moreover have "sin (1/10 :: real) \<le> 1/10" by (rule sin_x_le_x) simp
  ultimately have "\<lfloor>- (sin (1/10 :: real) * 3)\<rfloor> = - 1"
    by (simp add: floor_eq_iff)
  then show ?thesis by (simp add: height_def)
qed

lemma height_m16_0: "height (- 16) 0 = - 1"
proof -
  have "sin (8/5 :: real) \<le> 1" by simp
  with sin_8_5_lower have "\<lfloor>- (sin (8/5 :: real) * 3)\<rfloor> = - 3"
    by (simp add: floor_eq_iff)
  then show ?thesis by (simp add: height_def)
qed

lemma height_part000_ge: "2 \<le> height_part000 x z"
  unfolding height_part000_def
  using floor_sin_cos_ge [of "real_of_int x * 0.1" "real_of_int z * 0.1"] by linarith

lemma height_part000_0_0: "height_part000 0 0 = 5"
  by (simp add: height_part000_def)

subsection \<open>The world after the three nested loops\<close>

lemma fold_world:
  assumes "\<And>a s. world (f a s) = (\<lambda>k. if k \<in> D a then Some (G k) else world s k)"
  shows "world (fold f as s) = (\<lambda>k. if k \<in> (\<Union>a\<in>set as. D a) then Some (G k) else world s k)"
proof (induction as arbitrary: s)
  case Nil
  show ?case by simp
next
  case (Cons a as)
  show ?case by (simp add: Cons.IH assms fun_eq_iff)
qed

lemma world_terrainBlock:
  "world (terrainBlock x z y s) =
     (\<lambda>k. if k \<in> {(of_int x, of_int y, of_int z)} then Some (terrainBlockOf k) else world s k)"
  by (simp add: terrainBlock_def terrainBlockOf_def Map_set_def Let_def fun_eq_iff)

lemma world_terrain_grid:
  "world (fold (\<lambda>x. fold (\<lambda>z. fold (terrainBlock x z) (ys x z)) (zs x)) xs s) =
     (\<lambda>k. if k \<in> (\<Union>x\<in>set xs. \<Union>z\<in>set (zs x). \<Union>y\<in>set (ys x z).
                    {(of_int x, of_int y, of_int z)})
          then Some (terrainBlockOf k) else world s k)"
  by (intro fold_world world_terrainBlock)

lemma grid_keys:
  "k \<in> (\<Union>x\<in>set [-20..20]. \<Union>z\<in>set [-20..20]. \<Union>y\<in>set [0..h x z].
           {(real_of_int x, real_of_int y, real_of_int z)}) \<longleftrightarrow>
   (\<exists>x z y. -20 \<le> x \<and> x \<le> 20 \<and> -20 \<le> z \<and> z \<le> 20 \<and> 0 \<le> y \<and> y \<le> h x z \<and>
      k = (of_int x, of_int y, of_int z))"
  by (simp only: set_upto UN_iff singleton_iff Bex_def atLeastAtMost_iff) blast

lemma world_generateTerrain:
  assumes "blocksGroup s \<noteq> None"
  shows "world (generateTerrain s) k =
     (if \<exists>x z y. -20 \<le> x \<and> x \<le> 20 \<and> -20 \<le> z \<and> z \<le> 20 \<and> 0 \<le> y \<and> y \<le> height x z \<and>
            k = (of_int x, of_int y, of_int z)
      then Some (terrainBlockOf k) else None)"
proof -
  have "generateTerrain s =
          fold (\<lambda>x. fold (\<lambda>z. fold (terrainBlock x z) [0..height x z]) [-20..20]) [-20..20]
            (s\<lparr>world := Map.empty, blocksGroup := Some []\<rparr>)"
    using assms by (simp only: generateTerrain_def if_False)
  then have "world (generateTerrain s) k =
      (if k \<in> (\<Union>x\<in>set [-20..20]. \<Union>z\<in>set [-20..20]. \<Union>y\<in>set [0..height x z].
                  {(real_of_int x, real_of_int y, real_of_int z)})
       then Some (terrainBlockOf k) else None)"
    by (simp only: world_terrain_grid) (simp cong: if_cong del: upto_rec_numeral set_upto)
  then show ?thesis by (simp only: grid_keys)
qed

lemma world_createBlockMesh_part000 [simp]: "world (createBlockMesh_part000 b s) = world s"
  by (simp add: createBlockMesh_part000_def split: option.split)

lemma world_terrainBlock_part000:
  "world (terrainBlock_part000 x z y s) =
     (\<lambda>k. if k \<in> {(of_int x, of_int y, of_int z)} then Some (terrainBlockOf_part000 k)
          else world s k)"
  by (simp add: terrainBlock_part000_def terrainBlockOf_part000_def Map_set_def Let_def fun_eq_iff)

lemma world_terrain_grid_part000:
  "world (fold (\<lambda>x. fold (\<lambda>z. fold (terrainBlock_part000 x z) (ys x z)) (zs x)) xs s) =
     (\<lambda>k. if k \<in> (\<Union>x\<in>set xs. \<Union>z\<in>set (zs x). \<Union>y\<in>set (ys x z).
                    {(of_int x, of_int y, of_int z)})
          then Some (terrainBlockOf_part000 k) else world s k)"
  by (intro fold_world world_terrainBlock_part000)

lemma world_generateTerrain_part000:
  assumes "blocksGroup s \<noteq> None"
  shows "world (generateTerrain_part000 s) k =
     (if \<exists>x z y. -20 \<le> x \<and> x \<le> 20 \<and> -20 \<le> z \<and> z \<le> 20 \<and> 0 \<le> y \<and>
            y \<le> height_part000 x z \<and> k = (of_int x, of_int y, of_int z)
      then Some (terrainBlockOf_part000 k) else None)"
proof -
  have "generateTerrain_part000 s =
          fold (\<lambda>x. fold (\<lambda>z. fold (terrainBlock_part000 x z) [0..height_part000 x z])
                       [-20..20]) [-20..20]
            (s\<lparr>world := Map.empty, blocksGroup := Some []\<rparr>)"
    using assms by (simp only: generateTerrain_part000_def if_False)
  then have "world (generateTerrain_part000 s) k =
      (if k \<in> (\<Union>x\<in>set [-20..20]. \<Union>z\<in>set [-20..20]. \<Union>y\<in>set [0..height_part000 x z].
                  {(real_of_int x, real_of_int y, real_of_int z)})
       then Some (terrainBlockOf_part000 k) else None)"
    by (simp only: world_terrain_grid_part000) (simp cong: if_cong del: upto_rec_numeral set_upto)
  then show ?thesis by (simp only: grid_keys)
qed

lemma fold_blocksGroup:
  assumes "\<And>a s. blocksGroup s \<noteq> None \<Longrightarrow> blocksGroup (f a s) \<noteq> None"
  shows "blocksGroup s \<noteq> None \<Longrightarrow> blocksGroup (fold f as s) \<noteq> None"
proof (induction as arbitrary: s)
  case Nil
  then show ?case by simp
next
  case (Cons a as)
  from Cons.prems have "blocksGroup (f a s) \<noteq> None" by (rule assms)
  then have "blocksGroup (fold f as (f a s)) \<noteq> None" by (rule Cons.IH)
  then show ?case by simp
qed

lemma blocksGroup_terrainBlock:
  "blocksGroup s \<noteq> None \<Longrightarrow> blocksGroup (terrainBlock x z y s) \<noteq> None"
  by (simp add: terrainBlock_def group_add_def Let_def)

lemma blocksGroup_terrainBlock_part000:
  "blocksGroup s \<noteq> None \<Longrightarrow> blocksGroup (terrainBlock_part000 x z y s) \<noteq> None"
  by (auto simp add: terrainBlock_part000_def createBlockMesh_part000_def Let_def)

lemma blocksGroup_generateTerrain:
  assumes "blocksGroup s \<noteq> None"
  shows "blocksGroup (generateTerrain s) \<noteq> None"
proof -
  have col: "blocksGroup (fold (terrainBlock x z) ys t) \<noteq> None"
    if "blocksGroup t \<noteq> None" for x z ys t
    by (rule fold_blocksGroup [where f = "terrainBlock x z"])
       (simp_all add: that blocksGroup_terrainBlock)
  have row: "blocksGroup (fold (\<lambda>z. fold (terrainBlock x z) (ys z)) zs t) \<noteq> None"
    if "blocksGroup t \<noteq> None" for x ys zs t
    by (rule fold_blocksGroup [where f = "\<lambda>z. fold (terrainBlock x z) (ys z)"])
       (simp_all add: that col)
  have "blocksGroup (fold (\<lambda>x. fold (\<lambda>z. fold (terrainBlock x z) (ys x z)) zs) xs t) \<noteq> None"
    if "blocksGroup t \<noteq> None" for ys zs xs t
    by (rule fold_blocksGroup
          [where f = "\<lambda>x. fold (\<lambda>z. fold (terrainBlock x z) (ys x z)) zs"])
       (simp_all add: that row)
  then show ?thesis using assms by (simp add: generateTerrain_def del: upto_rec_numeral)
qed

lemma blocksGroup_generateTerrain_part000:
  assumes "blocksGroup s \<noteq> None"
  shows "blocksGroup (generateTerrain_part000 s) \<noteq> None"
proof -
  have col: "blocksGroup (fold (terrainBlock_part000 x z) ys t) \<noteq> None"
    if "blocksGroup t \<noteq> None" for x z ys t
    by (rule fold_blocksGroup [where f = "terrainBlock_part000 x z"])
       (simp_all add: that blocksGroup_terrainBlock_part000)
  have row: "blocksGroup (fold (\<lambda>z. fold (terrainBlock_part000 x z) (ys z)) zs t) \<noteq> None"
    if "blocksGroup t \<noteq> None" for x ys zs t
    by (rule fold_blocksGroup [where f = "\<lambda>z. fold (terrainBlock_part000 x z) (ys z)"])
       (simp_all add: that col)
  have "blocksGroup (fold (\<lambda>x. fold (\<lambda>z. fold (terrainBlock_part000 x z) (ys x z)) zs) xs t)
          \<noteq> None"
    if "blocksGroup t \<noteq> None" for ys zs xs t
    by (rule fold_blocksGroup
          [where f = "\<lambda>x. fold (\<lambda>z. fold (terrainBlock_part000 x z) (ys x z)) zs"])
       (simp_all add: that row)
  then show ?thesis using assms by (simp add: generateTerrain_part000_def del: upto_rec_numeral)
qed

lemma world_generateTerrain_cell:
  fixes x y z :: int
  assumes "blocksGroup s \<noteq> None"
    and "-20 \<le> x" "x \<le> 20" "-20 \<le> z" "z \<le> 20" "0 \<le> y" "y \<le> height x z"
  shows "world (generateTerrain s) (of_int x, of_int y, of_int z) =
           Some \<lparr>type = blockTypeAt y (height x z),
                 position = Vector3 (of_int x) (of_int y) (of_int z)\<rparr>"
proof -
  have "\<exists>x' z' y'. -20 \<le> x' \<and> x' \<le> 20 \<and> -20 \<le> z' \<and> z' \<le> 20 \<and> 0 \<le> y' \<and> y' \<le> height x' z' \<and>
          (real_of_int x, real_of_int y, real_of_int z) = (of_int x', of_int y', of_int z')"
    using assms(2-) by blast
  then show ?thesis
    by (simp only: world_generateTerrain [OF assms(1)] if_True) (simp add: terrainBlockOf_def)
qed

lemma world_generateTerrain_column:
  assumes "blocksGroup s \<noteq> None"
    and "world (generateTerrain s) (of_int x, r, of_int z) \<noteq> None"
  shows "\<exists>y. r = of_int y \<and> 0 \<le> y \<and> y \<le> height x z"
  using assms(2) unfolding world_generateTerrain [OF assms(1)]
  by (auto split: if_splits)

lemma world_generateTerrain_cell_part000:
  fixes x y z :: int
  assumes "blocksGroup s \<noteq> None"
    and "-20 \<le> x" "x \<le> 20" "-20 \<le> z" "z \<le> 20" "0 \<le> y" "y \<le> height_part000 x z"
  shows "world (generateTerrain_part000 s) (of_int x, of_int y, of_int z) =
           Some \<lparr>type = blockTypeAt_part000 y (height_part000 x z),
                 position = Vector3 (of_int x) (of_int y) (of_int z)\<rparr>"
proof -
  have "\<exists>x' z' y'. -20 \<le> x' \<and> x' \<le> 20 \<and> -20 \<le> z' \<and> z' \<le> 20 \<and> 0 \<le> y' \<and>
          y' \<le> height_part000 x' z' \<and>
          (real_of_int x, real_of_int y, real_of_int z) = (of_int x', of_int y', of_int z')"
    using assms(2-) by blast
  then show ?thesis
    by (simp only: world_generateTerrain_part000 [OF assms(1)] if_True)
       (simp add: terrainBlockOf_part000_def)
qed

lemma world_generateTerrain_column_part000:
  assumes "blocksGroup s \<noteq> None"
    and "world (generateTerrain_part000 s) (of_int x, r, of_int z) \<noteq> None"
  shows "\<exists>y. r = of_int y \<and> 0 \<le> y \<and> y \<le> height_part000 x z"
  using assms(2) unfolding world_generateTerrain_part000 [OF assms(1)]
  by (auto split: if_splits)

subsection \<open>The example states\<close>

lemma blocksGroup_initScene: "blocksGroup (initScene s) \<noteq> None"
  unfolding initScene_def by (rule blocksGroup_generateTerrain) simp

lemma blocksGroup_initScene_part000: "blocksGroup (initScene_part000 s) \<noteq> None"
  unfolding initScene_part000_def by (rule blocksGroup_generateTerrain_part000) simp

lemma blocksGroup_mountedGame: "blocksGroup mountedGame \<noteq> None"
  by (simp add: mountedGame_def setIsPointerLocked_def blocksGroup_initScene)

lemma blocksGroup_mountedGame_part000: "blocksGroup mountedGame_part000 \<noteq> None"
  by (simp add: mountedGame_part000_def setIsPointerLocked_def blocksGroup_initScene_part000)

lemmas example_defs =
  rightClick_def leftClick_def singleBlockGame_def topFaceHit_def singleBlockGame_part000_def
  topFaceHit_part000_def placedHit_def placedHit_part000_def

lemma placedGame_eq:
  "placedGame =
     singleBlockGame
       \<lparr>world := (world singleBlockGame)
          ((1/2, 3/2, 1/2) \<mapsto> \<lparr>type = GRASS, position = Vector3 (1/2) (3/2) (1/2)\<rparr>),
        blocksGroup :=
          Some [\<lparr>material = STONE, mesh_position = Vector3 0 0 0\<rparr>,
                \<lparr>material = GRASS, mesh_position = Vector3 (1/2) (3/2) (1/2)\<rparr>]\<rparr>"
  by (simp add: placedGame_def handleClick_def example_defs createBlockMesh_def group_add_def
        add_def floor_vec_def addScalar_def fl_half fl_one fl_three_halves key_def Map_has_def Map_set_def Let_def)

lemma placedGame_part000_eq:
  "placedGame_part000 =
     singleBlockGame_part000
       \<lparr>world := (world singleBlockGame_part000)
          ((0, 1, 0) \<mapsto> \<lparr>type = GRASS, position = Vector3 0 1 0\<rparr>),
        blocksGroup :=
          Some [\<lparr>material_part000 = STONE, mesh_position_part000 = Vector3 0 0 0,
                 userData_block = \<lparr>type = STONE, position = Vector3 0 0 0\<rparr>\<rparr>,
                \<lparr>material_part000 = GRASS, mesh_position_part000 = Vector3 0 1 0,
                 userData_block = \<lparr>type = GRASS, position = Vector3 0 1 0\<rparr>\<rparr>]\<rparr>"
  by (simp add: placedGame_part000_def handleClick_part000_def example_defs
        createBlockMesh_part000_def add_def fl_one key_def Map_has_def Map_set_def Let_def)

lemma world_mountedGame_top:
  "world mountedGame (0, 2, 0) = Some \<lparr>type = GRASS, position = Vector3 0 2 0\<rparr>"
  using world_generateTerrain_cell
          [where s = "initialGame\<lparr>scene := True,
                        camera := Some \<lparr>rotation_y = 0, rotation_x = 0\<rparr>, raycaster := True,
                        blocksGroup := Some []\<rparr>" and x = 0 and y = 2 and z = 0]
  by (simp add: mountedGame_def setIsPointerLocked_def initScene_def height_0_0 blockTypeAt_def)

lemma world_mountedGame_part000_top:
  "world mountedGame_part000 (0, 5, 0) = Some \<lparr>type = GRASS, position = Vector3 0 5 0\<rparr>"
  using world_generateTerrain_cell_part000
          [where s = "initialGame\<lparr>scene := True,
                        camera := Some \<lparr>rotation_y = 0, rotation_x = 0\<rparr>, raycaster := True,
                        blocksGroup := Some []\<rparr>" and x = 0 and y = 5 and z = 0]
  by (simp add: mountedGame_part000_def setIsPointerLocked_def initScene_part000_def
        height_part000_0_0 blockTypeAt_part000_def)

subsection \<open>Block types of a column\<close>

text \<open>
  Claim C3 (terrain height-threshold gating).  Every cell \<open>(x, y, z)\<close> of a generated
  column, \<open>0 \<le> y \<le> height\<close>, holds one block, and nothing else is stored in the column.
  In \<^verbatim>\<open>MinecraftGame.tsx\<close> a column of height at most 1 is Stone throughout; a block is
  Grass exactly at \<open>y = height\<close> with \<open>height > 1\<close>, and Dirt exactly for
  \<open>height - 2 \<le> y < height\<close> with \<open>height > 1\<close>.  The older copy has no such test, but its
  heights are all above 1, and there Grass is exactly the top cell and Dirt exactly the two
  cells below it.
\<close>

theorem terrain_height_gating:
  fixes x y z :: int
  assumes "blocksGroup s \<noteq> None" and "blocksGroup s' \<noteq> None"
    and "-20 \<le> x" "x \<le> 20" "-20 \<le> z" "z \<le> 20" "0 \<le> y"
  shows "(y \<le> height x z \<longrightarrow>
           (\<exists>b. world (generateTerrain s) (of_int x, of_int y, of_int z) = Some b \<and>
              position b = Vector3 (of_int x) (of_int y) (of_int z) \<and>
              (height x z \<le> 1 \<longrightarrow> type b = STONE) \<and>
              (type b = GRASS \<longleftrightarrow> y = height x z \<and> 1 < height x z) \<and>
              (type b = DIRT \<longleftrightarrow> height x z - 2 \<le> y \<and> y < height x z \<and> 1 < height x z) \<and>
              (type b = GRASS \<or> type b = DIRT \<or> type b = STONE))) \<and>
         (\<forall>r. world (generateTerrain s) (of_int x, r, of_int z) \<noteq> None \<longrightarrow>
              (\<exists>y'. r = of_int y' \<and> 0 \<le> y' \<and> y' \<le> height x z)) \<and>
         (y \<le> height_part000 x z \<longrightarrow>
           (\<exists>b. world (generateTerrain_part000 s') (of_int x, of_int y, of_int z) = Some b \<and>
              position b = Vector3 (of_int x) (of_int y) (of_int z) \<and>
              1 < height_part000 x z \<and>
              (type b = GRASS \<longleftrightarrow> y = height_part000 x z) \<and>
              (type b = DIRT \<longleftrightarrow> height_part000 x z - 2 \<le> y \<and> y < height_part000 x z) \<and>
              (type b = GRASS \<or> type b = DIRT \<or> type b = STONE))) \<and>
         (\<forall>r. world (generateTerrain_part000 s') (of_int x, r, of_int z) \<noteq> None \<longrightarrow>
              (\<exists>y'. r = of_int y' \<and> 0 \<le> y' \<and> y' \<le> height_part000 x z))"
proof (intro conjI impI allI)
  assume "y \<le> height x z"
  then have "world (generateTerrain s) (of_int x, of_int y, of_int z) =
           Some \<lparr>type = blockTypeAt y (height x z),
                 position = Vector3 (of_int x) (of_int y) (of_int z)\<rparr>"
    using assms by (intro world_generateTerrain_cell)
  moreover note \<open>y \<le> height x z\<close>
  ultimately show "\<exists>b. world (generateTerrain s) (of_int x, of_int y, of_int z) = Some b \<and>
              position b = Vector3 (of_int x) (of_int y) (of_int z) \<and>
              (height x z \<le> 1 \<longrightarrow> type b = STONE) \<and>
              (type b = GRASS \<longleftrightarrow> y = height x z \<and> 1 < height x z) \<and>
              (type b = DIRT \<longleftrightarrow> height x z - 2 \<le> y \<and> y < height x z \<and> 1 < height x z) \<and>
              (type b = GRASS \<or> type b = DIRT \<or> type b = STONE)"
    by (auto simp add: blockTypeAt_def)
next
  fix r assume "world (generateTerrain s) (of_int x, r, of_int z) \<noteq> None"
  then show "\<exists>y'. r = of_int y' \<and> 0 \<le> y' \<and> y' \<le> height x z"
    using assms(1) by (intro world_generateTerrain_column)
next
  assume "y \<le> height_part000 x z"
  then have "world (generateTerrain_part000 s') (of_int x, of_int y, of_int z) =
           Some \<lparr>type = blockTypeAt_part000 y (height_part000 x z),
                 position = Vector3 (of_int x) (of_int y) (of_int z)\<rparr>"
    using assms by (intro world_generateTerrain_cell_part000)
  moreover note \<open>y \<le> height_part000 x z\<close> height_part000_ge [of x z]
  ultimately show "\<exists>b. world (generateTerrain_part000 s') (of_int x, of_int y, of_int z) = Some b \<and>
              position b = Vector3 (of_int x) (of_int y) (of_int z) \<and>
              1 < height_part000 x z \<and>
              (type b = GRASS \<longleftrightarrow> y = height_part000 x z) \<and>
              (type b = DIRT \<longleftrightarrow> height_part000 x z - 2 \<le> y \<and> y < height_part000 x z) \<and>
              (type b = GRASS \<or> type b = DIRT \<or> type b = STONE)"
    by (auto simp add: blockTypeAt_part000_def)
next
  fix r assume "world (generateTerrain_part000 s') (of_int x, r, of_int z) \<noteq> None"
  then show "\<exists>y'. r = of_int y' \<and> 0 \<le> y' \<and> y' \<le> height_part000 x z"
    using assms(2) by (intro world_generateTerrain_column_part000)
qed

theorem terrain_height_gating_witness:
  "blocksGroup mountedGame \<noteq> None \<and> blocksGroup mountedGame_part000 \<noteq> None \<and>
   1 \<le> height (- 1) 0 \<and> height (- 1) 0 \<le> 1 \<and>
   (\<exists>b. world (generateTerrain mountedGame) (- 1, 1, 0) = Some b \<and> type b = STONE) \<and>
   1 \<le> height_part000 (- 1) 0 \<and>
   (\<exists>b. world (generateTerrain_part000 mountedGame_part000) (- 1, 1, 0) = Some b \<and>
      type b \<noteq> AIR)"
  using terrain_height_gating
          [OF blocksGroup_mountedGame blocksGroup_mountedGame_part000, of "- 1" 0 1]
        height_m1_0 height_part000_ge [of "- 1" 0]
        blocksGroup_mountedGame blocksGroup_mountedGame_part000
  by auto

subsection \<open>Empty columns\<close>

text \<open>
  Claim C10 (empty columns).  In \<^verbatim>\<open>MinecraftGame.tsx\<close> a column whose height is negative
  receives no block at any level, and such a column exists inside the generated area: the
  column \<open>x = -16\<close>, \<open>z = 0\<close> has height \<open>-1\<close> and stays empty.
\<close>

theorem empty_columns:
  assumes "blocksGroup s \<noteq> None"
  shows "(\<forall>x z. height x z < 0 \<longrightarrow>
            (\<forall>r. world (generateTerrain s) (of_int x, r, of_int z) = None)) \<and>
         height (- 16) 0 = - 1 \<and>
         (\<forall>r. world (generateTerrain s) (- 16, r, 0) = None)"
proof -
  have col: "world (generateTerrain s) (of_int x, r, of_int z) = None" if "height x z < 0" for x z r
  proof (rule ccontr)
    assume "world (generateTerrain s) (of_int x, r, of_int z) \<noteq> None"
    then obtain y where "0 \<le> y" "y \<le> height x z"
      using world_generateTerrain_column [OF assms] by blast
    with that show False by simp
  qed
  have "world (generateTerrain s) (- 16, r, 0) = None" for r
    using col [of "- 16" 0 r] by (simp add: height_m16_0)
  with col show ?thesis by (simp add: height_m16_0)
qed

theorem empty_columns_witness:
  "blocksGroup mountedGame \<noteq> None \<and> height (- 16) 0 < 0 \<and>
   world (generateTerrain mountedGame) (- 16, 0, 0) = None"
  using empty_columns [OF blocksGroup_mountedGame] blocksGroup_mountedGame by simp

subsection \<open>Regeneration\<close>

text \<open>
  Claim C6 (terrain generation determinism).  The generated world does not depend on the
  state in which generation starts: any two runs yield the same mapping from keys to
  blocks, and generating again over a generated world reproduces it.  This holds for both
  variants.
\<close>

theorem generateTerrain_deterministic:
  assumes "blocksGroup s \<noteq> None" and "blocksGroup t \<noteq> None"
    and "blocksGroup s' \<noteq> None" and "blocksGroup t' \<noteq> None"
  shows "world (generateTerrain s) = world (generateTerrain t) \<and>
         world (generateTerrain (generateTerrain s)) = world (generateTerrain s) \<and>
         world (generateTerrain_part000 s') = world (generateTerrain_part000 t') \<and>
         world (generateTerrain_part000 (generateTerrain_part000 s')) =
           world (generateTerrain_part000 s')"
  using assms
  by (simp add: fun_eq_iff world_generateTerrain world_generateTerrain_part000
        blocksGroup_generateTerrain blocksGroup_generateTerrain_part000)

theorem generateTerrain_deterministic_witness:
  "blocksGroup mountedGame \<noteq> None \<and> blocksGroup placedGame \<noteq> None \<and>
   blocksGroup mountedGame_part000 \<noteq> None \<and> blocksGroup placedGame_part000 \<noteq> None \<and>
   world (generateTerrain mountedGame) = world (generateTerrain placedGame) \<and>
   world (generateTerrain_part000 mountedGame_part000) =
     world (generateTerrain_part000 placedGame_part000)"
proof -
  have b: "blocksGroup placedGame \<noteq> None" by (simp add: placedGame_eq)
  have b': "blocksGroup placedGame_part000 \<noteq> None" by (simp add: placedGame_part000_eq)
  from generateTerrain_deterministic
         [OF blocksGroup_mountedGame b blocksGroup_mountedGame_part000 b']
       blocksGroup_mountedGame b blocksGroup_mountedGame_part000 b'
  show ?thesis by simp
qed

section \<open>The occupancy invariant: proofs\<close>

lemma fold_currentBlockType:
  assumes "\<And>a s. currentBlockType (f a s) = currentBlockType s"
  shows "currentBlockType (fold f as s) = currentBlockType s"
  by (induction as arbitrary: s) (simp_all add: assms)

lemma currentBlockType_generateTerrain [simp]:
  "currentBlockType (generateTerrain s) = currentBlockType s"
proof -
  have cell: "currentBlockType (terrainBlock x z y t) = currentBlockType t" for x z y t
    by (simp add: terrainBlock_def Let_def)
  have col: "currentBlockType (fold (terrainBlock x z) ys t) = currentBlockType t" for x z ys t
    by (rule fold_currentBlockType) (rule cell)
  have row: "currentBlockType (fold (\<lambda>z. fold (terrainBlock x z) (ys z)) zs t) = currentBlockType t"
    for x ys zs t
    by (rule fold_currentBlockType) (rule col)
  have "currentBlockType (fold (\<lambda>x. fold (\<lambda>z. fold (terrainBlock x z) (ys x z)) zs) xs t)
          = currentBlockType t" for ys zs xs t
    by (rule fold_currentBlockType) (rule row)
  then show ?thesis by (simp add: generateTerrain_def del: upto_rec_numeral)
qed

lemma currentBlockType_generateTerrain_part000 [simp]:
  "currentBlockType (generateTerrain_part000 s) = currentBlockType s"
proof -
  have cell: "currentBlockType (terrainBlock_part000 x z y t) = currentBlockType t" for x z y t
    by (simp add: terrainBlock_part000_def createBlockMesh_part000_def Let_def
          split: option.split)
  have col: "currentBlockType (fold (terrainBlock_part000 x z) ys t) = currentBlockType t"
    for x z ys t
    by (rule fold_currentBlockType) (rule cell)
  have row: "currentBlockType (fold (\<lambda>z. fold (terrainBlock_part000 x z) (ys z)) zs t) =
               currentBlockType t" for x ys zs t
    by (rule fold_currentBlockType) (rule col)
  have "currentBlockType
          (fold (\<lambda>x. fold (\<lambda>z. fold (terrainBlock_part000 x z) (ys x z)) zs) xs t)
          = currentBlockType t" for ys zs xs t
    by (rule fold_currentBlockType) (rule row)
  then show ?thesis by (simp add: generateTerrain_part000_def del: upto_rec_numeral)
qed

lemma blockTypeAt_not_AIR [simp]: "blockTypeAt y h \<noteq> AIR"
  by (simp add: blockTypeAt_def)

lemma blockTypeAt_part000_not_AIR [simp]: "blockTypeAt_part000 y h \<noteq> AIR"
  by (simp add: blockTypeAt_part000_def)

lemma occupancy_generateTerrain: "occupancy s \<Longrightarrow> occupancy (generateTerrain s)"
proof (cases "blocksGroup s = None")
  case True
  then have "generateTerrain s = s" by (simp add: generateTerrain_def)
  then show "occupancy s \<Longrightarrow> ?thesis" by simp
next
  case False
  assume "occupancy s"
  then show ?thesis
    unfolding occupancy_def
    by (auto simp add: world_generateTerrain [OF False] terrainBlockOf_def key_def
          split: if_splits)
qed

lemma occupancy_generateTerrain_part000:
  "occupancy s \<Longrightarrow> occupancy (generateTerrain_part000 s)"
proof (cases "blocksGroup s = None")
  case True
  then have "generateTerrain_part000 s = s" by (simp add: generateTerrain_part000_def)
  then show "occupancy s \<Longrightarrow> ?thesis" by simp
next
  case False
  assume "occupancy s"
  then show ?thesis
    unfolding occupancy_def
    by (auto simp add: world_generateTerrain_part000 [OF False] terrainBlockOf_part000_def
          key_def split: if_splits)
qed

lemma occupancy_removeBlockMesh: "occupancy s \<Longrightarrow> occupancy (removeBlockMesh p s)"
  by (auto simp add: occupancy_def removeBlockMesh_def Map_get_def Map_delete_def Let_def
        split: option.splits if_splits)

lemma occupancy_handleClick: "occupancy s \<Longrightarrow> occupancy (handleClick event intersects s)"
  unfolding handleClick_def
  by (auto simp add: occupancy_removeBlockMesh Let_def split: list.splits option.splits)
     (auto simp add: occupancy_def Map_has_def Map_set_def split: if_splits)

lemma occupancy_handleClick_part000:
  "occupancy s \<Longrightarrow> occupancy (handleClick_part000 event intersects s)"
  unfolding handleClick_part000_def
  by (auto simp add: occupancy_def removeBlockMesh_part000_def createBlockMesh_part000_def
        Map_has_def Map_set_def Map_delete_def Let_def
        split: list.splits option.splits if_splits)

lemma occupancy_handleMouseMove: "occupancy s \<Longrightarrow> occupancy (handleMouseMove event s)"
  by (auto simp add: occupancy_def handleMouseMove_def Let_def split: option.splits)

lemma occupancy_handleKeyDown: "occupancy s \<Longrightarrow> occupancy (handleKeyDown code s)"
  by (auto simp add: occupancy_def handleKeyDown_def Let_def)

lemma occupancy_handleKeyUp: "occupancy s \<Longrightarrow> occupancy (handleKeyUp code s)"
  by (simp add: occupancy_def handleKeyUp_def)

lemma occupancy_setIsPointerLocked: "occupancy s \<Longrightarrow> occupancy (setIsPointerLocked b s)"
  by (simp add: occupancy_def setIsPointerLocked_def)

lemma occupancy_initialGame: "occupancy initialGame"
  by (simp add: occupancy_def initialGame_def)

lemma occupancy_initScene: "occupancy s \<Longrightarrow> occupancy (initScene s)"
  unfolding initScene_def by (rule occupancy_generateTerrain) (simp add: occupancy_def)

lemma occupancy_initScene_part000: "occupancy s \<Longrightarrow> occupancy (initScene_part000 s)"
  unfolding initScene_part000_def
  by (rule occupancy_generateTerrain_part000) (simp add: occupancy_def)

lemma reachable_occupancy: "reachable s \<Longrightarrow> occupancy s"
  by (induction rule: reachable.induct)
     (simp_all add: occupancy_initialGame occupancy_initScene occupancy_generateTerrain
        occupancy_handleClick occupancy_handleMouseMove occupancy_handleKeyDown
        occupancy_handleKeyUp occupancy_setIsPointerLocked)

text \<open>
  Claim C1 (occupancy invariant).  In every state of \<^verbatim>\<open>MinecraftGame.tsx\<close> that start-up,
  terrain generation, clicks (placing and removing blocks), pointer movement and key
  presses can reach, a key of the world holds at most one block (the world is a map), that
  block is stored under the key of its own position, and its type is Grass, Dirt, Stone or
  Wood, never Air.
\<close>

theorem occupancy_invariant:
  assumes "reachable s" and "world s k = Some b"
  shows "type b \<in> {GRASS, DIRT, STONE, WOOD} \<and> key (position b) = k"
proof -
  from assms have "type b \<noteq> AIR" and k: "key (position b) = k"
    using reachable_occupancy [of s] unfolding occupancy_def by blast+
  then have "type b \<in> {GRASS, DIRT, STONE, WOOD}" by (cases "type b") simp_all
  with k show ?thesis by simp
qed

theorem occupancy_invariant_witness:
  "reachable mountedGame \<and>
   world mountedGame (0, 2, 0) = Some \<lparr>type = GRASS, position = Vector3 0 2 0\<rparr> \<and>
   GRASS \<in> {GRASS, DIRT, STONE, WOOD} \<and> key (Vector3 0 2 0) = (0, 2, 0)"
proof -
  have r: "reachable mountedGame"
    unfolding mountedGame_def by (intro reachable.intros)
  from occupancy_invariant [OF r world_mountedGame_top] r world_mountedGame_top
  show ?thesis by simp
qed

section \<open>Editing: proofs\<close>

subsection \<open>Where a placed block lands\<close>

text \<open>
  Claim C2 (placement adjacency), evaluated at the scenario of the specification: a single
  block at \<open>(0, 0, 0)\<close>, hit on its top face by the ray from \<open>(0, 5, 0)\<close> straight down, and a
  Place click.  The older copy adds the face normal to the position of the hit block and
  stores the new block at \<open>(0, 1, 0)\<close>.  \<^verbatim>\<open>MinecraftGame.tsx\<close> instead rounds the hit point
  plus the normal down and adds one half: the new block is stored at \<open>(1/2, 3/2, 1/2)\<close>,
  and nothing is stored at \<open>(0, 1, 0)\<close>.
\<close>

theorem place_on_top_face:
  "world (handleClick rightClick [topFaceHit] singleBlockGame) (0, 1, 0) = None \<and>
   world (handleClick rightClick [topFaceHit] singleBlockGame) (1/2, 3/2, 1/2) =
     Some \<lparr>type = GRASS, position = Vector3 (1/2) (3/2) (1/2)\<rparr> \<and>
   world (handleClick_part000 rightClick [topFaceHit_part000] singleBlockGame_part000) (0, 1, 0) =
     Some \<lparr>type = GRASS, position = Vector3 0 1 0\<rparr>"
  by (simp add: handleClick_def handleClick_part000_def rightClick_def topFaceHit_def
        topFaceHit_part000_def singleBlockGame_def singleBlockGame_part000_def
        createBlockMesh_part000_def
        add_def floor_vec_def addScalar_def fl_half fl_one fl_three_halves key_def Map_has_def Map_set_def Let_def)

theorem place_on_top_face_witness:
  "isPointerLocked singleBlockGame \<and> raycaster singleBlockGame \<and>
   camera singleBlockGame \<noteq> None \<and> blocksGroup singleBlockGame \<noteq> None \<and>
   button rightClick = 2 \<and> face_normal topFaceHit = Some (Vector3 0 1 0) \<and>
   point topFaceHit = Vector3 0 (1/2) 0 \<and>
   world singleBlockGame (1/2, 3/2, 1/2) = None \<and>
   world (handleClick rightClick [topFaceHit] singleBlockGame) (1/2, 3/2, 1/2) \<noteq> None \<and>
   world (handleClick rightClick [topFaceHit] singleBlockGame) (0, 1, 0) = None"
  using place_on_top_face by (simp add: example_defs)

text \<open>
  In the older copy every successful Place stores the new block at the position of the hit
  block plus the face normal.
\<close>

lemma place_adjacent_part000:
  assumes "isPointerLocked s" "raycaster s" "camera s \<noteq> None" "scene s"
    and "button event = 2" and "face_normal hit = Some normal"
    and "world s (key (add (position (userData_block (object hit))) normal)) = None"
  shows "world (handleClick_part000 event (hit # rest) s) =
           (world s)(key (add (position (userData_block (object hit))) normal) \<mapsto>
              \<lparr>type = currentBlockType s,
               position = add (position (userData_block (object hit))) normal\<rparr>)"
  using assms
  by (auto simp add: handleClick_part000_def createBlockMesh_part000_def Map_has_def
        Map_set_def Let_def split: option.splits)

subsection \<open>Storing into an occupied cell\<close>

text \<open>
  Claim C4 (insert occupancy check) does not hold of the code as stated: the only insert
  operation is \<^verbatim>\<open>Map.set\<close>, and on a key that is present it replaces the stored block
  instead of failing.  Here the origin of the single-block world is occupied; storing a
  Wood block there changes the world, and so does the loop body of terrain generation.
\<close>

theorem set_overwrites:
  "Map_has (0, 0, 0) (world singleBlockGame) \<and>
   Map_set (0, 0, 0) \<lparr>type = WOOD, position = Vector3 0 0 0\<rparr> (world singleBlockGame)
     \<noteq> world singleBlockGame \<and>
   world (terrainBlock 0 0 0 singleBlockGame) \<noteq> world singleBlockGame"
proof -
  have "Map_set (0, 0, 0) \<lparr>type = WOOD, position = Vector3 0 0 0\<rparr> (world singleBlockGame) (0,0,0)
     \<noteq> world singleBlockGame (0,0,0)"
    by (simp add: Map_set_def singleBlockGame_def)
  moreover have "world (terrainBlock 0 0 0 singleBlockGame) (0,0,0) \<noteq> world singleBlockGame (0,0,0)"
    by (simp add: terrainBlock_def Map_set_def singleBlockGame_def Let_def height_0_0 blockTypeAt_def)
  ultimately show ?thesis
    by (auto simp add: Map_has_def singleBlockGame_def)
qed

text \<open>
  Claim C4 as amended.  \<^verbatim>\<open>Map.set\<close> has no failure case: it always stores the block under
  the key and leaves every other key alone, also when the key was present; this is how the
  loop body of terrain generation stores its block, whatever the world holds.  The
  occupancy check is made by the caller: the Place branch of the click handler tests
  \<^verbatim>\<open>has(key)\<close> first and leaves the state unchanged when the target key is present (both
  variants).
\<close>

theorem set_stores_caller_checks:
  "Map_get k (Map_set k b w) = Some b \<and>
   (\<forall>k'. k' \<noteq> k \<longrightarrow> Map_get k' (Map_set k b w) = Map_get k' w) \<and>
   world (terrainBlock x z y t) =
     Map_set (of_int x, of_int y, of_int z)
       \<lparr>type = blockTypeAt y (height x z),
        position = Vector3 (of_int x) (of_int y) (of_int z)\<rparr> (world t) \<and>
   world (terrainBlock_part000 x z y t') =
     Map_set (of_int x, of_int y, of_int z)
       \<lparr>type = blockTypeAt_part000 y (height_part000 x z),
        position = Vector3 (of_int x) (of_int y) (of_int z)\<rparr> (world t') \<and>
   (Map_has (key (addScalar (floor_vec (add (point hit) normal)) 0.5)) (world s) \<and>
    face_normal hit = Some normal \<and> button event = 2 \<longrightarrow>
      handleClick event (hit # rest) s = s) \<and>
   (Map_has (key (add (position (userData_block (object hit'))) normal)) (world s') \<and>
    face_normal hit' = Some normal \<and> button event = 2 \<longrightarrow>
      handleClick_part000 event (hit' # rest') s' = s')"
proof (intro conjI allI impI)
  show "Map_get k (Map_set k b w) = Some b"
    by (simp add: Map_get_def Map_set_def)
  show "Map_get k' (Map_set k b w) = Map_get k' w" if "k' \<noteq> k" for k'
    using that by (simp add: Map_get_def Map_set_def)
  show "world (terrainBlock x z y t) =
     Map_set (of_int x, of_int y, of_int z)
       \<lparr>type = blockTypeAt y (height x z),
        position = Vector3 (of_int x) (of_int y) (of_int z)\<rparr> (world t)"
    by (simp add: terrainBlock_def Let_def)
  show "world (terrainBlock_part000 x z y t') =
     Map_set (of_int x, of_int y, of_int z)
       \<lparr>type = blockTypeAt_part000 y (height_part000 x z),
        position = Vector3 (of_int x) (of_int y) (of_int z)\<rparr> (world t')"
    by (simp add: terrainBlock_part000_def Let_def)
  show "handleClick event (hit # rest) s = s"
    if "Map_has (key (addScalar (floor_vec (add (point hit) normal)) 0.5)) (world s) \<and>
        face_normal hit = Some normal \<and> button event = 2"
    using that by (simp add: handleClick_def Let_def)
  show "handleClick_part000 event (hit' # rest') s' = s'"
    if "Map_has (key (add (position (userData_block (object hit'))) normal)) (world s') \<and>
        face_normal hit' = Some normal \<and> button event = 2"
    using that by (simp add: handleClick_part000_def Let_def)
qed

theorem set_stores_caller_checks_witness:
  "Map_get (0, 0, 0)
     (Map_set (0, 0, 0) \<lparr>type = WOOD, position = Vector3 0 0 0\<rparr> (world singleBlockGame)) =
     Some \<lparr>type = WOOD, position = Vector3 0 0 0\<rparr> \<and>
   ((1, 0, 0) :: Key) \<noteq> (0, 0, 0) \<and>
   Map_get (1, 0, 0)
     (Map_set (0, 0, 0) \<lparr>type = WOOD, position = Vector3 0 0 0\<rparr> (world singleBlockGame)) =
     Map_get (1, 0, 0) (world singleBlockGame) \<and>
   Map_has (key (addScalar (floor_vec (add (point topFaceHit) (Vector3 0 1 0))) 0.5))
     (world placedGame) \<and>
   face_normal topFaceHit = Some (Vector3 0 1 0) \<and> button rightClick = 2 \<and>
   handleClick rightClick [topFaceHit] placedGame = placedGame \<and>
   Map_has (key (add (position (userData_block (object topFaceHit_part000))) (Vector3 0 1 0)))
     (world placedGame_part000) \<and>
   face_normal topFaceHit_part000 = Some (Vector3 0 1 0) \<and>
   handleClick_part000 rightClick [topFaceHit_part000] placedGame_part000 = placedGame_part000"
proof -
  have h: "Map_has (key (addScalar (floor_vec (add (point topFaceHit) (Vector3 0 1 0))) 0.5))
     (world placedGame)"
    by (simp add: placedGame_eq example_defs add_def floor_vec_def addScalar_def fl_half fl_one fl_three_halves key_def
          Map_has_def)
  have h': "Map_has
      (key (add (position (userData_block (object topFaceHit_part000))) (Vector3 0 1 0)))
      (world placedGame_part000)"
    by (simp add: placedGame_part000_eq example_defs add_def fl_one key_def Map_has_def)
  have f: "face_normal topFaceHit = Some (Vector3 0 1 0)" "button rightClick = 2"
    "face_normal topFaceHit_part000 = Some (Vector3 0 1 0)"
    by (simp_all add: example_defs)
  from set_stores_caller_checks
         [where k = "(0, 0, 0)" and b = "\<lparr>type = WOOD, position = Vector3 0 0 0\<rparr>"
            and w = "world singleBlockGame" and hit = topFaceHit and normal = "Vector3 0 1 0"
            and s = placedGame and event = rightClick and rest = "[]"
            and hit' = topFaceHit_part000 and s' = placedGame_part000 and rest' = "[]"] h h' f
  show ?thesis by simp
qed

subsection \<open>Clicks change at most one cell\<close>

lemma world_removeBlockMesh:
  "world (removeBlockMesh p s) = world s \<or>
   world (removeBlockMesh p s) = (world s)(key p := None)"
  by (simp add: removeBlockMesh_def Map_get_def Map_delete_def Let_def split: option.splits)

lemma world_handleClick_cases:
  "world (handleClick event intersects s) = world s \<or>
   (\<exists>k. world (handleClick event intersects s) = (world s)(k := None)) \<or>
   (\<exists>k b. world s k = None \<and> world (handleClick event intersects s) = (world s)(k \<mapsto> b))"
proof (cases intersects)
  case Nil
  then show ?thesis by (simp add: handleClick_def)
next
  case (Cons hit rest)
  show ?thesis
  proof (cases "face_normal hit")
    case None
    with Cons show ?thesis by (simp add: handleClick_def)
  next
    case (Some normal)
    let ?w = "world (handleClick event intersects s)"
    let ?p = "addScalar (floor_vec (add (point hit) normal)) 0.5"
    let ?b = "\<lparr>type = currentBlockType s, position = ?p\<rparr>"
    have "?w = world s \<or> ?w = world (removeBlockMesh (mesh_position (object hit)) s) \<or>
          world s (key ?p) = None \<and> ?w = (world s)(key ?p \<mapsto> ?b)"
      by (simp add: Cons Some handleClick_def Map_has_def Map_set_def Let_def)
    then consider
      (same) "?w = world s"
    | (removed) "?w = (world s)(key (mesh_position (object hit)) := None)"
    | (placed) "world s (key ?p) = None" "?w = (world s)(key ?p \<mapsto> ?b)"
      using world_removeBlockMesh [of "mesh_position (object hit)" s] by argo
    then show ?thesis
    proof cases
      case same
      then show ?thesis by (rule disjI1)
    next
      case removed
      then show ?thesis by (intro disjI2 disjI1 exI)
    next
      case placed
      then show ?thesis by (intro disjI2 exI conjI)
    qed
  qed
qed

lemma world_handleClick_part000_cases:
  "world (handleClick_part000 event intersects s) = world s \<or>
   (\<exists>k. world (handleClick_part000 event intersects s) = (world s)(k := None)) \<or>
   (\<exists>k b. world s k = None \<and>
      world (handleClick_part000 event intersects s) = (world s)(k \<mapsto> b))"
proof (cases intersects)
  case Nil
  then show ?thesis by (simp add: handleClick_part000_def)
next
  case (Cons hit rest)
  have rm: "world (removeBlockMesh_part000 p t) = world t" for p t
    by (simp add: removeBlockMesh_part000_def split: option.splits)
  let ?w = "world (handleClick_part000 event intersects s)"
  let ?c = "position (userData_block (object hit))"
  show ?thesis
  proof (cases "face_normal hit")
    case None
    have "?w = world s \<or> ?w = (world s)(key ?c := None)"
      by (simp add: Cons None handleClick_part000_def rm Map_delete_def Let_def)
    then show ?thesis by (elim disjE) (rule disjI1, assumption, intro disjI2 disjI1 exI)
  next
    case (Some normal)
    let ?p = "add ?c normal"
    let ?b = "\<lparr>type = currentBlockType s, position = ?p\<rparr>"
    have "?w = world s \<or> ?w = (world s)(key ?c := None) \<or>
          world s (key ?p) = None \<and> ?w = (world s)(key ?p \<mapsto> ?b)"
      by (simp add: Cons Some handleClick_part000_def rm Map_has_def Map_set_def
            Map_delete_def Let_def)
    then consider
      (same) "?w = world s"
    | (removed) "?w = (world s)(key ?c := None)"
    | (placed) "world s (key ?p) = None" "?w = (world s)(key ?p \<mapsto> ?b)"
      by argo
    then show ?thesis
    proof cases
      case same
      then show ?thesis by (rule disjI1)
    next
      case removed
      then show ?thesis by (intro disjI2 disjI1 exI)
    next
      case placed
      then show ?thesis by (intro disjI2 exI conjI)
    qed
  qed
qed

text \<open>
  Claim C5 (Place on an occupied target is a no-op) says that the action reports Blocked.
  The handlers return no value and record no outcome: a Place click on an occupied target
  ends in the very state that a click hitting nothing ends in, so nothing tells the two
  apart.  Here the target of the top-face hit is occupied after the first Place click.
\<close>

theorem blocked_place_same_as_miss:
  "Map_has (key (addScalar (floor_vec (add (point topFaceHit) (Vector3 0 1 0))) 0.5))
     (world placedGame) \<and>
   handleClick rightClick [topFaceHit] placedGame = handleClick rightClick [] placedGame \<and>
   Map_has (key (add (position (userData_block (object topFaceHit_part000))) (Vector3 0 1 0)))
     (world placedGame_part000) \<and>
   handleClick_part000 rightClick [topFaceHit_part000] placedGame_part000 =
     handleClick_part000 rightClick [] placedGame_part000"
proof -
  have h: "Map_has (key (addScalar (floor_vec (add (point topFaceHit) (Vector3 0 1 0))) 0.5))
     (world placedGame)"
    by (simp add: placedGame_eq example_defs add_def floor_vec_def addScalar_def fl_half fl_one
          fl_three_halves key_def Map_has_def)
  have h': "Map_has
      (key (add (position (userData_block (object topFaceHit_part000))) (Vector3 0 1 0)))
      (world placedGame_part000)"
    by (simp add: placedGame_part000_eq example_defs add_def fl_one key_def Map_has_def)
  have f: "face_normal topFaceHit = Some (Vector3 0 1 0)" "button rightClick = 2"
    "face_normal topFaceHit_part000 = Some (Vector3 0 1 0)"
    by (simp_all add: example_defs)
  have "handleClick rightClick [topFaceHit] placedGame = placedGame"
    using h f by (simp add: handleClick_def Let_def)
  moreover have "handleClick rightClick [] placedGame = placedGame"
    by (simp add: handleClick_def)
  moreover have
    "handleClick_part000 rightClick [topFaceHit_part000] placedGame_part000 = placedGame_part000"
    using h' f by (simp add: handleClick_part000_def Let_def)
  moreover have "handleClick_part000 rightClick [] placedGame_part000 = placedGame_part000"
    by (simp add: handleClick_part000_def)
  ultimately show ?thesis using h h' by simp
qed

text \<open>
  Claim C5 as amended.  A Place click whose target key is present returns the state it was
  given: world and meshes are untouched, nothing is added, removed or altered.  No outcome
  is reported; the result is the one of a click that hits nothing.  More generally a click
  of any kind leaves the world as it was, or deletes one key, or stores one block under a
  key that was free.  Both variants.
\<close>

theorem place_on_occupied_noop:
  "(button event = 2 \<and> face_normal hit = Some normal \<and>
    world s (key (addScalar (floor_vec (add (point hit) normal)) 0.5)) \<noteq> None \<longrightarrow>
      handleClick event (hit # rest) s = s \<and>
      handleClick event (hit # rest) s = handleClick event [] s) \<and>
   (button event = 2 \<and> face_normal hit' = Some normal \<and>
    world s' (key (add (position (userData_block (object hit'))) normal)) \<noteq> None \<longrightarrow>
      handleClick_part000 event (hit' # rest') s' = s' \<and>
      handleClick_part000 event (hit' # rest') s' = handleClick_part000 event [] s') \<and>
   (world (handleClick event intersects s) = world s \<or>
    (\<exists>k. world (handleClick event intersects s) = (world s)(k := None)) \<or>
    (\<exists>k b. world s k = None \<and> world (handleClick event intersects s) = (world s)(k \<mapsto> b))) \<and>
   (world (handleClick_part000 event intersects' s') = world s' \<or>
    (\<exists>k. world (handleClick_part000 event intersects' s') = (world s')(k := None)) \<or>
    (\<exists>k b. world s' k = None \<and>
       world (handleClick_part000 event intersects' s') = (world s')(k \<mapsto> b)))"
proof (intro conjI)
  show "button event = 2 \<and> face_normal hit = Some normal \<and>
    world s (key (addScalar (floor_vec (add (point hit) normal)) 0.5)) \<noteq> None \<longrightarrow>
      handleClick event (hit # rest) s = s \<and>
      handleClick event (hit # rest) s = handleClick event [] s"
    by (simp add: handleClick_def Map_has_def Let_def)
  show "button event = 2 \<and> face_normal hit' = Some normal \<and>
    world s' (key (add (position (userData_block (object hit'))) normal)) \<noteq> None \<longrightarrow>
      handleClick_part000 event (hit' # rest') s' = s' \<and>
      handleClick_part000 event (hit' # rest') s' = handleClick_part000 event [] s'"
    by (simp add: handleClick_part000_def Map_has_def Let_def)
qed (rule world_handleClick_cases world_handleClick_part000_cases)+

theorem place_on_occupied_noop_witness:
  "button rightClick = 2 \<and> face_normal topFaceHit = Some (Vector3 0 1 0) \<and>
   world placedGame (key (addScalar (floor_vec (add (point topFaceHit) (Vector3 0 1 0))) 0.5))
     \<noteq> None \<and>
   handleClick rightClick [topFaceHit] placedGame = placedGame \<and>
   handleClick rightClick [topFaceHit] placedGame = handleClick rightClick [] placedGame \<and>
   face_normal topFaceHit_part000 = Some (Vector3 0 1 0) \<and>
   world placedGame_part000
     (key (add (position (userData_block (object topFaceHit_part000))) (Vector3 0 1 0)))
     \<noteq> None \<and>
   handleClick_part000 rightClick [topFaceHit_part000] placedGame_part000 = placedGame_part000"
proof -
  have h: "world placedGame
      (key (addScalar (floor_vec (add (point topFaceHit) (Vector3 0 1 0))) 0.5)) \<noteq> None"
    by (simp add: placedGame_eq example_defs add_def floor_vec_def addScalar_def fl_half fl_one
          fl_three_halves key_def)
  have h': "world placedGame_part000
      (key (add (position (userData_block (object topFaceHit_part000))) (Vector3 0 1 0)))
      \<noteq> None"
    by (simp add: placedGame_part000_eq example_defs add_def fl_one key_def)
  have f: "face_normal topFaceHit = Some (Vector3 0 1 0)" "button rightClick = 2"
    "face_normal topFaceHit_part000 = Some (Vector3 0 1 0)"
    by (simp_all add: example_defs)
  note inst = place_on_occupied_noop
         [of rightClick topFaceHit "Vector3 0 1 0" placedGame "[]"
             topFaceHit_part000 placedGame_part000 "[]" "[]" "[]"]
  from inst h f have a: "handleClick rightClick [topFaceHit] placedGame = placedGame"
    and b: "handleClick rightClick [topFaceHit] placedGame = handleClick rightClick [] placedGame"
    by blast+
  from inst h' f have c:
    "handleClick_part000 rightClick [topFaceHit_part000] placedGame_part000 = placedGame_part000"
    by blast
  from a b c h h' f show ?thesis by blast
qed

subsection \<open>Placing and removing\<close>

text \<open>
  Claim C8 (place/remove round-trip).  When a Place click stores a block at a position
  that was empty, and the next click removes the block at that same position, the world
  is again the mapping it was before the Place click.  Both variants.
\<close>

theorem place_remove_round_trip:
  "(isPointerLocked s \<and> raycaster s \<and> camera s \<noteq> None \<and> blocksGroup s \<noteq> None \<and>
    button placeEvent = 2 \<and> face_normal hit = Some normal \<and>
    newPosition = addScalar (floor_vec (add (point hit) normal)) 0.5 \<and>
    world s (key newPosition) = None \<and>
    button removeEvent = 0 \<and> face_normal hit2 \<noteq> None \<and>
    mesh_position (object hit2) = newPosition \<longrightarrow>
      world (handleClick placeEvent (hit # rest) s) (key newPosition) =
        Some \<lparr>type = currentBlockType s, position = newPosition\<rparr> \<and>
      world (handleClick removeEvent (hit2 # rest2) (handleClick placeEvent (hit # rest) s)) =
        world s) \<and>
   (isPointerLocked s' \<and> raycaster s' \<and> camera s' \<noteq> None \<and> scene s' \<and>
    button placeEvent = 2 \<and> face_normal hit' = Some normal' \<and>
    newPosition' = add (position (userData_block (object hit'))) normal' \<and>
    world s' (key newPosition') = None \<and>
    button removeEvent = 0 \<and>
    position (userData_block (object hit2')) = newPosition' \<longrightarrow>
      world (handleClick_part000 placeEvent (hit' # rest') s') (key newPosition') =
        Some \<lparr>type = currentBlockType s', position = newPosition'\<rparr> \<and>
      world (handleClick_part000 removeEvent (hit2' # rest2')
               (handleClick_part000 placeEvent (hit' # rest') s')) =
        world s')"
proof (intro conjI impI; elim conjE)
  assume a: "isPointerLocked s" "raycaster s" "camera s \<noteq> None" "blocksGroup s \<noteq> None"
    "button placeEvent = 2" "face_normal hit = Some normal"
    "newPosition = addScalar (floor_vec (add (point hit) normal)) 0.5"
    "world s (key newPosition) = None"
    "button removeEvent = 0" "face_normal hit2 \<noteq> None"
    "mesh_position (object hit2) = newPosition"
  let ?b = "\<lparr>type = currentBlockType s, position = newPosition\<rparr>"
  let ?mesh = "(createBlockMesh (currentBlockType s))\<lparr>mesh_position := newPosition\<rparr>"
  have placed: "handleClick placeEvent (hit # rest) s =
      s\<lparr>world := (world s)(key newPosition \<mapsto> ?b),
        blocksGroup := group_add ?mesh (blocksGroup s)\<rparr>"
    using a by (auto simp add: handleClick_def Map_has_def Map_set_def Let_def)
  show "world (handleClick placeEvent (hit # rest) s) (key newPosition) = Some ?b"
    by (simp add: placed)
  have "world s = (world s)(key newPosition := None)"
    using a(8) by (simp add: fun_eq_iff)
  then show "world (handleClick removeEvent (hit2 # rest2) (handleClick placeEvent (hit # rest) s)) =
        world s"
    unfolding placed using a
    by (auto simp add: handleClick_def removeBlockMesh_def group_add_def Map_get_def
          Map_delete_def Let_def split: option.splits)
next
  assume a: "isPointerLocked s'" "raycaster s'" "camera s' \<noteq> None" "scene s'"
    "button placeEvent = 2" "face_normal hit' = Some normal'"
    "newPosition' = add (position (userData_block (object hit'))) normal'"
    "world s' (key newPosition') = None"
    "button removeEvent = 0"
    "position (userData_block (object hit2')) = newPosition'"
  let ?b = "\<lparr>type = currentBlockType s', position = newPosition'\<rparr>"
  have placed: "handleClick_part000 placeEvent (hit' # rest') s' =
      createBlockMesh_part000 ?b (s'\<lparr>world := (world s')(key newPosition' \<mapsto> ?b)\<rparr>)"
    using a by (auto simp add: handleClick_part000_def Map_has_def Map_set_def Let_def)
  show "world (handleClick_part000 placeEvent (hit' # rest') s') (key newPosition') = Some ?b"
    by (simp add: placed)
  have "world s' = (world s')(key newPosition' := None)"
    using a(8) by (simp add: fun_eq_iff)
  then show "world (handleClick_part000 removeEvent (hit2' # rest2')
               (handleClick_part000 placeEvent (hit' # rest') s')) = world s'"
    unfolding placed using a
    by (auto simp add: handleClick_part000_def removeBlockMesh_part000_def
          createBlockMesh_part000_def Map_delete_def Let_def split: option.splits)
qed

theorem place_remove_round_trip_witness:
  "world singleBlockGame (1/2, 3/2, 1/2) = None \<and>
   world (handleClick rightClick [topFaceHit] singleBlockGame) (1/2, 3/2, 1/2) =
     Some \<lparr>type = GRASS, position = Vector3 (1/2) (3/2) (1/2)\<rparr> \<and>
   world (handleClick leftClick [placedHit] (handleClick rightClick [topFaceHit] singleBlockGame)) =
     world singleBlockGame \<and>
   world singleBlockGame_part000 (0, 1, 0) = None \<and>
   world (handleClick_part000 rightClick [topFaceHit_part000] singleBlockGame_part000) (0, 1, 0) =
     Some \<lparr>type = GRASS, position = Vector3 0 1 0\<rparr> \<and>
   world (handleClick_part000 leftClick [placedHit_part000]
            (handleClick_part000 rightClick [topFaceHit_part000] singleBlockGame_part000)) =
     world singleBlockGame_part000"
  using place_remove_round_trip
          [of singleBlockGame rightClick topFaceHit "Vector3 0 1 0"
              "Vector3 (1/2) (3/2) (1/2)" leftClick placedHit "[]" "[]"
              singleBlockGame_part000 topFaceHit_part000 "Vector3 0 1 0" "Vector3 0 1 0"
              placedHit_part000 "[]" "[]"]
  by (simp add: example_defs add_def floor_vec_def addScalar_def fl_half fl_one fl_three_halves key_def)

subsection \<open>Keys of placed blocks in MinecraftGame.tsx\<close>






section \<open>Orientation: proofs\<close>

lemma mouse_y_handleMouseMove:
  "mouse_y (handleMouseMove event s) =
     (if isPointerLocked s \<and> camera s \<noteq> None
      then max (- pi / 2) (min (pi / 2) (mouse_y s - movementY event * 0.002))
      else mouse_y s)"
  by (auto simp add: handleMouseMove_def Let_def split: option.splits)

lemma mouse_y_handleMouseMove_bounds:
  assumes "- pi / 2 \<le> mouse_y s" "mouse_y s \<le> pi / 2"
  shows "- pi / 2 \<le> mouse_y (handleMouseMove event s) \<and>
         mouse_y (handleMouseMove event s) \<le> pi / 2"
  unfolding mouse_y_handleMouseMove
  using assms pi_gt_zero by (auto simp add: max_def min_def simp del: pi_gt_zero)

lemma mouse_y_fold_bounds:
  assumes "- pi / 2 \<le> mouse_y s" "mouse_y s \<le> pi / 2"
  shows "- pi / 2 \<le> mouse_y (fold handleMouseMove events s) \<and>
         mouse_y (fold handleMouseMove events s) \<le> pi / 2"
  using assms
proof (induction events arbitrary: s)
  case Nil
  then show ?case by simp
next
  case (Cons event events)
  from mouse_y_handleMouseMove_bounds [OF Cons.prems, of event]
  have "- pi / 2 \<le> mouse_y (handleMouseMove event s)"
    and "mouse_y (handleMouseMove event s) \<le> pi / 2" by blast+
  then have "- pi / 2 \<le> mouse_y (fold handleMouseMove events (handleMouseMove event s)) \<and>
         mouse_y (fold handleMouseMove events (handleMouseMove event s)) \<le> pi / 2"
    by (rule Cons.IH)
  then show ?case by simp
qed

text \<open>
  Claim C7 (pitch clamp).  Starting from pitch 0, after any finite sequence of pointer
  movements the pitch lies between \<open>-\<pi>/2\<close> and \<open>\<pi>/2\<close>.  A movement that would take the
  pitch to or beyond a bound leaves it exactly at that bound; a movement that stays
  inside changes the pitch by the movement times 0.002.
\<close>

theorem pitch_clamp:
  "(mouse_y s = 0 \<longrightarrow>
      - pi / 2 \<le> mouse_y (fold handleMouseMove events s) \<and>
      mouse_y (fold handleMouseMove events s) \<le> pi / 2) \<and>
   (isPointerLocked s \<and> camera s \<noteq> None \<and>
    pi / 2 \<le> mouse_y s - movementY event * 0.002 \<longrightarrow>
      mouse_y (handleMouseMove event s) = pi / 2) \<and>
   (isPointerLocked s \<and> camera s \<noteq> None \<and>
    mouse_y s - movementY event * 0.002 \<le> - pi / 2 \<longrightarrow>
      mouse_y (handleMouseMove event s) = - pi / 2) \<and>
   (isPointerLocked s \<and> camera s \<noteq> None \<and>
    - pi / 2 \<le> mouse_y s - movementY event * 0.002 \<and>
    mouse_y s - movementY event * 0.002 \<le> pi / 2 \<longrightarrow>
      mouse_y (handleMouseMove event s) = mouse_y s - movementY event * 0.002)"
proof (intro conjI impI)
  assume "mouse_y s = 0"
  then have "- pi / 2 \<le> mouse_y s" "mouse_y s \<le> pi / 2" using pi_ge_zero by simp_all
  then have b: "- pi / 2 \<le> mouse_y (fold handleMouseMove events s) \<and>
         mouse_y (fold handleMouseMove events s) \<le> pi / 2"
    by (rule mouse_y_fold_bounds)
  from b show "- pi / 2 \<le> mouse_y (fold handleMouseMove events s)" ..
  from b show "mouse_y (fold handleMouseMove events s) \<le> pi / 2" ..
next
  assume "isPointerLocked s \<and> camera s \<noteq> None \<and>
    pi / 2 \<le> mouse_y s - movementY event * 0.002"
  then show "mouse_y (handleMouseMove event s) = pi / 2"
    unfolding mouse_y_handleMouseMove using pi_gt_zero by (auto simp add: max_def min_def simp del: pi_gt_zero)
next
  assume "isPointerLocked s \<and> camera s \<noteq> None \<and>
    mouse_y s - movementY event * 0.002 \<le> - pi / 2"
  then show "mouse_y (handleMouseMove event s) = - pi / 2"
    unfolding mouse_y_handleMouseMove using pi_gt_zero by (auto simp add: max_def min_def simp del: pi_gt_zero)
next
  assume "isPointerLocked s \<and> camera s \<noteq> None \<and>
    - pi / 2 \<le> mouse_y s - movementY event * 0.002 \<and>
    mouse_y s - movementY event * 0.002 \<le> pi / 2"
  then show "mouse_y (handleMouseMove event s) = mouse_y s - movementY event * 0.002"
    unfolding mouse_y_handleMouseMove by (auto simp add: max_def min_def)
qed

theorem pitch_clamp_witness:
  "mouse_y lookingGame = 0 \<and>
   - pi / 2 \<le> mouse_y (fold handleMouseMove [pointerUp, pointerUp, pointerDown] lookingGame) \<and>
   mouse_y (fold handleMouseMove [pointerUp, pointerUp, pointerDown] lookingGame) \<le> pi / 2 \<and>
   isPointerLocked lookingGame \<and> camera lookingGame \<noteq> None \<and>
   pi / 2 \<le> mouse_y lookingGame - movementY pointerUp * 0.002 \<and>
   mouse_y (handleMouseMove pointerUp lookingGame) = pi / 2 \<and>
   mouse_y lookingGame - movementY pointerDown * 0.002 \<le> - pi / 2 \<and>
   mouse_y (handleMouseMove pointerDown lookingGame) = - pi / 2 \<and>
   - pi / 2 \<le> mouse_y lookingGame - movementY pointerSmall * 0.002 \<and>
   mouse_y lookingGame - movementY pointerSmall * 0.002 \<le> pi / 2 \<and>
   mouse_y (handleMouseMove pointerSmall lookingGame) = - 1 / 5"
proof -
  have s: "mouse_y lookingGame = 0" "isPointerLocked lookingGame" "camera lookingGame \<noteq> None"
    by (simp_all add: lookingGame_def initialGame_def)
  have up: "pi / 2 \<le> mouse_y lookingGame - movementY pointerUp * 0.002"
    using pi_less_4 by (simp add: s pointerUp_def)
  have down: "mouse_y lookingGame - movementY pointerDown * 0.002 \<le> - pi / 2"
    using pi_less_4 by (simp add: s pointerDown_def)
  have small: "- pi / 2 \<le> mouse_y lookingGame - movementY pointerSmall * 0.002"
    "mouse_y lookingGame - movementY pointerSmall * 0.002 \<le> pi / 2"
    "mouse_y lookingGame - movementY pointerSmall * 0.002 = - 1 / 5"
    using pi_ge_two by (simp_all add: s pointerSmall_def)
  from pitch_clamp [of lookingGame "[pointerUp, pointerUp, pointerDown]" pointerUp]
       pitch_clamp [of lookingGame "[]" pointerDown]
       pitch_clamp [of lookingGame "[]" pointerSmall] s up down small
  show ?thesis by simp
qed

end
